theory Spec2Isabelle
  imports Complex_Main "HOL-Library.AList"
begin

section \<open>The virtual-environment builder of the installer (penv.py)\<close>

text \<open>
  The module creates a Python virtual environment by running external commands, records a
  state file and upgrades pip. Everything it does goes through collaborators that are not
  part of the module: processes, the file system, the downloader, the interpreter
  discovery. They are the fields of the record \<open>sys\<close> below; the module's own functions
  are translated one by one on top of them, threading a \<open>world\<close> (the files on disk and
  the trace of the calls made so far).

  Exceptions are values: only subclasses of Python's \<open>Exception\<close> are modelled (an
  asynchronous \<open>KeyboardInterrupt\<close> is outside the model), so \<open>except Exception\<close>
  catches every \<open>exn\<close>.
\<close>

subsection \<open>Data\<close>

type_synonym path = string

type_synonym command = "string list"

type_synonym filesystem = "(path \<times> string) list"

datatype exn =
    CalledProcessError
  | OSError
  | ValueError
  | TypeError
  | PIOInstallerException string

datatype json =
    JNull
  | JBool bool
  | JInt int
  | JStr string
  | JArr "json list"
  | JObj "(string \<times> json) list"

text \<open>
  The calls that leave the module. \<open>Run\<close> and \<open>Download\<close> carry the files that
  existed when the call started, and what the call answered.
\<close>

datatype event =
    RemoveDir path
  | Run command filesystem "exn option"
  | CheckOutput command "exn + string"
  | Download string path filesystem "exn + path option"
  | FetchPortable path "path option"

record world =
  files :: filesystem
  trace :: "event list"

text \<open>
  The collaborators. \<open>run\<close> is \<open>subprocess.run(command, check=True)\<close>: \<open>None\<close> when
  the process exits with status 0, \<open>Some CalledProcessError\<close> on another status, another
  exception when the process cannot be started. \<open>download_file\<close>,
  \<open>find_compatible_pythons\<close>, \<open>is_portable\<close>, \<open>fetch_portable_python\<close>,
  \<open>core_dir\<close>, \<open>IS_WINDOWS\<close> and \<open>installer_version\<close> belong to sibling modules
  of the package (\<open>util\<close>, \<open>python\<close>, \<open>core\<close>, \<open>__version__\<close>); the others
  are the Python library and the host. \<open>can_write p fs\<close> says whether opening \<open>p\<close>
  for writing succeeds; reading an existing regular file always succeeds.
  \<open>click_echo m\<close> is \<open>click.echo(m)\<close>: \<open>None\<close> when the message is written,
  the exception raised when it cannot be (a closed standard output, say).
\<close>

record sys =
  getenv :: "string \<Rightarrow> string option"
  core_dir :: path
  IS_WINDOWS :: bool
  installer_version :: string
  find_compatible_pythons :: "path list option \<Rightarrow> path list"
  is_portable :: bool
  fetch_portable_python :: "path \<Rightarrow> filesystem \<Rightarrow> path option \<times> filesystem"
  download_file :: "string \<Rightarrow> path \<Rightarrow> filesystem \<Rightarrow> (exn + path option) \<times> filesystem"
  run :: "command \<Rightarrow> filesystem \<Rightarrow> exn option \<times> filesystem"
  check_output :: "command \<Rightarrow> filesystem \<Rightarrow> (exn + string) \<times> filesystem"
  decode :: "string \<Rightarrow> exn + string"
  strip :: "string \<Rightarrow> string"
  can_write :: "path \<Rightarrow> filesystem \<Rightarrow> bool"
  json_dumps :: "json \<Rightarrow> string"
  json_loads :: "string \<Rightarrow> exn + json"
  time_time :: real
  platform_platform :: string
  platform_release :: string
  click_echo :: "string \<Rightarrow> exn option"

subsection \<open>Python library functions\<close>

text \<open>\<open>os.path\<close> in its POSIX flavour (\<open>posixpath\<close>).\<close>

definition os_path_join :: "path \<Rightarrow> path \<Rightarrow> path" where
  "os_path_join a b =
     (if b \<noteq> [] \<and> hd b = CHR ''/'' then b
      else if a = [] \<or> last a = CHR ''/'' then a @ b
      else a @ ''/'' @ b)"

definition os_path_basename :: "path \<Rightarrow> path" where
  "os_path_basename p = rev (takeWhile (\<lambda>c. c \<noteq> CHR ''/'') (rev p))"

definition os_path_dirname :: "path \<Rightarrow> path" where
  "os_path_dirname p =
     (let head = rev (dropWhile (\<lambda>c. c \<noteq> CHR ''/'') (rev p))
      in if head \<noteq> [] \<and> (\<exists>c \<in> set head. c \<noteq> CHR ''/'')
         then rev (dropWhile (\<lambda>c. c = CHR ''/'') (rev head))
         else head)"

text \<open>Truthiness of a path or \<open>None\<close>: \<open>None\<close> and the empty string are false.\<close>

definition truthy :: "path option \<Rightarrow> bool" where
  "truthy p = (case p of None \<Rightarrow> False | Some s \<Rightarrow> s \<noteq> [])"

text \<open>\<open>p or d\<close>.\<close>

definition py_or :: "path option \<Rightarrow> path \<Rightarrow> path" where
  "py_or p d = (if truthy p then the p else d)"

text \<open>\<open>int(round(x))\<close>: the nearest integer, a tie going to the even one.\<close>

definition py_round :: "real \<Rightarrow> int" where
  "py_round x =
     (let f = \<lfloor>x\<rfloor>
      in if x - of_int f < 1 / 2 then f
         else if 1 / 2 < x - of_int f then f + 1
         else if even f then f else f + 1)"

text \<open>\<open>with open(p, "w") as fp: fp.write(c)\<close>: the file is replaced, whatever it held.\<close>

definition open_write :: "sys \<Rightarrow> path \<Rightarrow> string \<Rightarrow> world \<Rightarrow> exn option \<times> world" where
  "open_write s p c w =
     (if can_write s p (files w)
      then (None, w\<lparr>files := AList.update p c (files w)\<rparr>)
      else (Some OSError, w))"

definition os_path_isfile :: "path \<Rightarrow> world \<Rightarrow> bool" where
  "os_path_isfile p w = (map_of (files w) p \<noteq> None)"

definition subprocess_run :: "sys \<Rightarrow> command \<Rightarrow> world \<Rightarrow> exn option \<times> world" where
  "subprocess_run s command w =
     (case run s command (files w) of
        (r, fs) \<Rightarrow> (r, \<lparr>files = fs, trace = trace w @ [Run command (files w) r]\<rparr>))"

definition subprocess_check_output :: "sys \<Rightarrow> command \<Rightarrow> world \<Rightarrow> (exn + string) \<times> world" where
  "subprocess_check_output s command w =
     (case check_output s command (files w) of
        (r, fs) \<Rightarrow> (r, \<lparr>files = fs, trace = trace w @ [CheckOutput command r]\<rparr>))"

subsection \<open>Sibling modules\<close>

definition util_download_file ::
  "sys \<Rightarrow> string \<Rightarrow> path \<Rightarrow> world \<Rightarrow> (exn + path option) \<times> world" where
  "util_download_file s url dst w =
     (case download_file s url dst (files w) of
        (r, fs) \<Rightarrow> (r, \<lparr>files = fs, trace = trace w @ [Download url dst (files w) r]\<rparr>))"


text \<open>A path lies inside a directory when it is the directory or below it.\<close>

definition inside :: "path \<Rightarrow> path \<Rightarrow> bool" where
  "inside d p = (p = d \<or> take (length d + 1) p = d @ ''/'')"

definition cleared :: "path \<Rightarrow> filesystem \<Rightarrow> bool" where
  "cleared d fs = list_all (\<lambda>(p, c). \<not> inside d p) fs"

text \<open>
  Modelled from the spec: \<open>util.safe_remove_dir\<close> is not among the sources. The spec
  says that the target path is forcibly cleared before each attempt, deleting any previous
  contents at that path; the call does not fail.
\<close>

definition safe_remove_dir :: "path \<Rightarrow> world \<Rightarrow> world" where
  "safe_remove_dir d w =
     \<lparr>files = filter (\<lambda>(p, c). \<not> inside d p) (files w),
      trace = trace w @ [RemoveDir d]\<rparr>"

subsection \<open>The module\<close>

definition VIRTUALENV_URL :: string where
  "VIRTUALENV_URL = ''https://bootstrap.pypa.io/virtualenv/virtualenv.pyz''"

definition PIP_URL :: string where
  "PIP_URL = ''https://bootstrap.pypa.io/get-pip.py''"

definition get_penv_dir :: "sys \<Rightarrow> path option \<Rightarrow> path" where
  "get_penv_dir s path =
     (if truthy (getenv s ''PLATFORMIO_PENV_DIR'')
      then the (getenv s ''PLATFORMIO_PENV_DIR'')
      else os_path_join (py_or path (core_dir s)) ''penv'')"


definition venv_cmd_options :: "path \<Rightarrow> path \<Rightarrow> command list" where
  "venv_cmd_options python_exe penv_dir =
     [[python_exe, ''-m'', ''venv'', penv_dir],
      [python_exe, ''-m'', ''virtualenv'', ''-p'', python_exe, penv_dir],
      [''virtualenv'', ''-p'', python_exe, penv_dir],
      [python_exe, ''-m'', ''virtualenv'', penv_dir],
      [''virtualenv'', penv_dir]]"

text \<open>
  The loop of \<open>create_with_local_venv\<close> over the commands still to try, with
  \<open>last_error\<close>. Raising \<open>None\<close> is a \<open>TypeError\<close> in Python.
\<close>

fun try_commands ::
  "sys \<Rightarrow> path \<Rightarrow> command list \<Rightarrow> exn option \<Rightarrow> world \<Rightarrow> (exn + path) \<times> world" where
  "try_commands s penv_dir [] last_error w =
     (Inl (case last_error of None \<Rightarrow> TypeError | Some e \<Rightarrow> e), w)"
| "try_commands s penv_dir (command # rest) last_error w =
     (case subprocess_run s command (safe_remove_dir penv_dir w) of
        (None, w') \<Rightarrow> (Inr penv_dir, w')
      | (Some e, w') \<Rightarrow> try_commands s penv_dir rest (Some e) w')"

definition create_with_local_venv ::
  "sys \<Rightarrow> path \<Rightarrow> path \<Rightarrow> world \<Rightarrow> (exn + path) \<times> world" where
  "create_with_local_venv s python_exe penv_dir w =
     try_commands s penv_dir (venv_cmd_options python_exe penv_dir) None w"

definition venv_cache_path :: "path \<Rightarrow> path" where
  "venv_cache_path penv_dir =
     os_path_join (os_path_join (os_path_join (os_path_dirname penv_dir) ''.cache'') ''tmp'')
       (os_path_basename VIRTUALENV_URL)"

definition create_with_remote_venv ::
  "sys \<Rightarrow> path \<Rightarrow> path \<Rightarrow> world \<Rightarrow> (exn + path) \<times> world" where
  "create_with_remote_venv s python_exe penv_dir w =
     (case util_download_file s VIRTUALENV_URL (venv_cache_path penv_dir)
             (safe_remove_dir penv_dir w) of
        (Inl e, w1) \<Rightarrow> (Inl e, w1)
      | (Inr venv_script_path, w1) \<Rightarrow>
          if \<not> truthy venv_script_path
          then (Inl (PIOInstallerException ''Could not find virtualenv script''), w1)
          else (case subprocess_run s [python_exe, the venv_script_path, penv_dir] w1 of
                  (None, w2) \<Rightarrow> (Inr penv_dir, w2)
                | (Some e, w2) \<Rightarrow> (Inl e, w2)))"

definition create_virtualenv :: "sys \<Rightarrow> path \<Rightarrow> path \<Rightarrow> world \<Rightarrow> path option \<times> world" where
  "create_virtualenv s python_exe penv_dir w =
     (case create_with_local_venv s python_exe penv_dir w of
        (Inr d, w1) \<Rightarrow> (Some d, w1)
      | (Inl e, w1) \<Rightarrow>
          (case create_with_remote_venv s python_exe penv_dir w1 of
             (Inr d, w2) \<Rightarrow> (Some d, w2)
           | (Inl exc, w2) \<Rightarrow> (None, w2)))"

definition save_state :: "sys \<Rightarrow> json \<Rightarrow> path option \<Rightarrow> world \<Rightarrow> (exn + path) \<times> world" where
  "save_state s state penv_dir w =
     (let state_path = os_path_join (py_or penv_dir (get_penv_dir s None)) ''state.json''
      in case open_write s state_path (json_dumps s state) w of
           (None, w') \<Rightarrow> (Inr state_path, w')
         | (Some e, w') \<Rightarrow> (Inl e, w'))"

definition load_state :: "sys \<Rightarrow> path option \<Rightarrow> world \<Rightarrow> exn + json" where
  "load_state s penv_dir w =
     (let state_path = os_path_join (py_or penv_dir (get_penv_dir s None)) ''state.json''
      in if \<not> os_path_isfile state_path w
         then Inl (PIOInstallerException
                (''Could not found state.json file in `'' @ state_path @ ''`''))
         else json_loads s (the (map_of (files w) state_path)))"

definition version_code :: string where
  "version_code =
     ''import sys; version=sys.version_info; '' @
     ''print('' @ [CHR 0x27] @ ''%d.%d.%d'' @ [CHR 0x27] @
     ''%(version[0],version[1],version[2]))''"

definition init_state :: "sys \<Rightarrow> path \<Rightarrow> path \<Rightarrow> world \<Rightarrow> (exn + path) \<times> world" where
  "init_state s python_exe penv_dir w =
     (case subprocess_check_output s [python_exe, ''-c'', version_code] w of
        (Inl e, w1) \<Rightarrow> (Inl e, w1)
      | (Inr out, w1) \<Rightarrow>
          (case decode s out of
             Inl e \<Rightarrow> (Inl e, w1)
           | Inr text \<Rightarrow>
               (let python_version = strip s text;
                    state = JObj
                      [(''created_on'', JInt (py_round (time_time s))),
                       (''python'', JObj
                          [(''path'', JStr python_exe),
                           (''version'', JStr python_version)]),
                       (''installer_version'', JStr (installer_version s)),
                       (''platform'', JObj
                          [(''platform'', JStr (platform_platform s)),
                           (''release'', JStr (platform_release s))])]
                in save_state s state (Some penv_dir) w1)))"

definition pip_conf :: string where
  "pip_conf = ''[global]'' @ [CHR 0x0A] @ ''user=no''"

definition get_pip_path :: "path \<Rightarrow> path" where
  "get_pip_path penv_dir =
     os_path_join (os_path_join (os_path_join (os_path_dirname penv_dir) ''.cache'') ''tmp'')
       (os_path_basename PIP_URL)"

text \<open>
  The inner \<open>try\<close> statement of \<open>update_pip\<close>: the primary command and, under
  \<open>except subprocess.CalledProcessError\<close>, the download and the bootstrap script.
  \<open>Some e\<close> is the exception that leaves it.
\<close>

definition update_pip_upgrade :: "sys \<Rightarrow> path \<Rightarrow> path \<Rightarrow> world \<Rightarrow> exn option \<times> world" where
  "update_pip_upgrade s python_exe penv_dir w =
     (case subprocess_run s [python_exe, ''-m'', ''pip'', ''install'', ''-U'', ''pip''] w of
        (None, w1) \<Rightarrow> (None, w1)
      | (Some e, w1) \<Rightarrow>
          if e = CalledProcessError
          then (case util_download_file s PIP_URL (get_pip_path penv_dir) w1 of
                  (Inl e', w2) \<Rightarrow> (Some e', w2)
                | (Inr p, w2) \<Rightarrow>
                    subprocess_run s [python_exe, get_pip_path penv_dir] w2)
          else (Some e, w1))"

text \<open>
  The body of the outer \<open>try\<close> of \<open>update_pip\<close>: the configuration file, the
  inner \<open>try\<close> statement and the closing message.
\<close>

definition update_pip_try :: "sys \<Rightarrow> path \<Rightarrow> path \<Rightarrow> world \<Rightarrow> exn option \<times> world" where
  "update_pip_try s python_exe penv_dir w =
     (case open_write s (os_path_join penv_dir ''pip.conf'') pip_conf w of
        (Some e, w1) \<Rightarrow> (Some e, w1)
      | (None, w1) \<Rightarrow>
          (case update_pip_upgrade s python_exe penv_dir w1 of
             (Some e, w2) \<Rightarrow> (Some e, w2)
           | (None, w2) \<Rightarrow> (click_echo s ''PIP has been successfully updated!'', w2)))"

text \<open>
  \<open>update_pip\<close>: the opening message is written before the outer \<open>try\<close>, so its
  exception leaves the function; \<open>except Exception\<close> turns an exception of the body
  into \<open>False\<close>.
\<close>

definition update_pip :: "sys \<Rightarrow> path \<Rightarrow> path \<Rightarrow> world \<Rightarrow> (exn + bool) \<times> world" where
  "update_pip s python_exe penv_dir w =
     (case click_echo s ''Updating Python package manager (PIP) in the virtual environment'' of
        Some e \<Rightarrow> (Inl e, w)
      | None \<Rightarrow>
          (case update_pip_try s python_exe penv_dir w of
             (None, w') \<Rightarrow> (Inr True, w')
           | (Some e, w') \<Rightarrow> (Inr False, w')))"

text \<open>The \<open>for\<close> loop of \<open>create_core_penv\<close> over the candidate interpreters.\<close>

fun try_pythons :: "sys \<Rightarrow> path list \<Rightarrow> path \<Rightarrow> world \<Rightarrow> path option \<times> world" where
  "try_pythons s [] penv_dir w = (None, w)"
| "try_pythons s (python_exe # rest) penv_dir w =
     (case create_virtualenv s python_exe penv_dir w of
        (result_dir, w') \<Rightarrow>
          if truthy result_dir then (result_dir, w') else try_pythons s rest penv_dir w')"

definition build_failure :: exn where
  "build_failure = PIOInstallerException
     (''Could not create PIO Core Virtual Environment. Please report to '' @
      ''https://github.com/platformio/platformio-core-installer/issues'')"



subsection \<open>Reading a trace\<close>

text \<open>The commands that were run, each with its outcome, in the order of the calls.\<close>

fun runs :: "event list \<Rightarrow> (command \<times> exn option) list" where
  "runs [] = []"
| "runs (Run c fs r # es) = (c, r) # runs es"
| "runs (e # es) = runs es"

text \<open>The events that a call added to the trace.\<close>

definition new_events :: "world \<Rightarrow> world \<Rightarrow> event list" where
  "new_events w w' = drop (length (trace w)) (trace w')"

text \<open>The downloads that were asked for, each with its answer, and the portable fetches.\<close>

fun downloads :: "event list \<Rightarrow> (string \<times> path \<times> (exn + path option)) list" where
  "downloads [] = []"
| "downloads (Download url dst fs r # es) = (url, dst, r) # downloads es"
| "downloads (e # es) = downloads es"


text \<open>
  The events of a sequence of local attempts: each attempt is the removal of the target
  directory followed by the command, started on the files \<open>fs\<close> and answering \<open>r\<close>.
\<close>

definition attempt_events :: "path \<Rightarrow> (command \<times> filesystem \<times> exn option) list \<Rightarrow> event list" where
  "attempt_events d atts = concat (map (\<lambda>(c, fs, r). [RemoveDir d, Run c fs r]) atts)"

text \<open>What \<open>raise last_error\<close> raises.\<close>

definition raised :: "exn option \<Rightarrow> exn" where
  "raised le = (case le of None \<Rightarrow> TypeError | Some e \<Rightarrow> e)"

text \<open>
  How the result of the loop over the local commands relates to the attempts made: a
  returned path comes after failures and one success, a raised exception after the
  failure of every command, and it is the last one.
\<close>

definition local_result ::
  "path \<Rightarrow> command list \<Rightarrow> exn option \<Rightarrow> (command \<times> filesystem \<times> exn option) list
     \<Rightarrow> exn + path \<Rightarrow> bool" where
  "local_result d cmds le atts r =
     (case r of
        Inr p \<Rightarrow> p = d \<and> (\<exists>errs. map (\<lambda>(c, fs, r). r) atts = map Some errs @ [None])
      | Inl e \<Rightarrow> length atts = length cmds
           \<and> (\<exists>errs. map (\<lambda>(c, fs, r). r) atts = map Some errs
                 \<and> e = last (raised le # errs)))"

subsection \<open>A concrete host for the examples\<close>

text \<open>
  A small host on which the functions can be evaluated: the commands accepted by \<open>ok\<close>
  exit with status 0 and install an interpreter below the directory named last on the
  command line, the others exit with an error and leave a partial file there. Documents
  are printed as JSON text (for strings that need no escaping).
\<close>

function show_nat :: "nat \<Rightarrow> string" where
  "show_nat n =
     (if n < 10 then [''0123456789'' ! n]
      else show_nat (n div 10) @ [''0123456789'' ! (n mod 10)])"
  by pat_completeness auto

termination
  by (relation "measure id") auto

fun show_json :: "json \<Rightarrow> string"
  and show_items :: "json list \<Rightarrow> string"
  and show_members :: "(string \<times> json) list \<Rightarrow> string" where
  "show_json JNull = ''null''"
| "show_json (JBool b) = (if b then ''true'' else ''false'')"
| "show_json (JInt i) = (if i < 0 then ''-'' @ show_nat (nat (- i)) else show_nat (nat i))"
| "show_json (JStr t) = [CHR 0x22] @ t @ [CHR 0x22]"
| "show_json (JArr xs) = ''['' @ show_items xs @ '']''"
| "show_json (JObj kvs) = ''{'' @ show_members kvs @ ''}''"
| "show_items [] = []"
| "show_items [x] = show_json x"
| "show_items (x # y # xs) = show_json x @ '', '' @ show_items (y # xs)"
| "show_members [] = []"
| "show_members [(k, v)] = [CHR 0x22] @ k @ [CHR 0x22] @ '': '' @ show_json v"
| "show_members ((k, v) # y # kvs) =
     [CHR 0x22] @ k @ [CHR 0x22] @ '': '' @ show_json v @ '', '' @ show_members (y # kvs)"

definition demo_state :: json where
  "demo_state = JObj
     [(''created_on'', JInt 1700000001),
      (''python'', JObj
         [(''path'', JStr ''/penv/bin/python''), (''version'', JStr ''3.9.1'')]),
      (''installer_version'', JStr ''1.2.2''),
      (''platform'', JObj
         [(''platform'', JStr ''Linux-6.1-x86_64''), (''release'', JStr ''6.1'')])]"

definition demo_sys :: "(command \<Rightarrow> bool) \<Rightarrow> bool \<Rightarrow> bool \<Rightarrow> sys" where
  "demo_sys ok writable portable =
     \<lparr>getenv = (\<lambda>name. None),
      core_dir = ''/home/u/.platformio'',
      IS_WINDOWS = False,
      installer_version = ''1.2.2'',
      find_compatible_pythons = (\<lambda>ignore_pythons. [''/usr/bin/python3'']),
      is_portable = portable,
      fetch_portable_python = (\<lambda>d fs. (Some (os_path_join d ''python3/bin/python3''), fs)),
      download_file = (\<lambda>url dst fs. (Inr (Some dst), AList.update dst ''script'' fs)),
      run = (\<lambda>c fs.
        if ok c then (None, AList.update (last c @ ''/bin/python'') ''python'' fs)
        else (Some CalledProcessError, AList.update (last c @ ''/partial'') ''junk'' fs)),
      check_output = (\<lambda>c fs. (Inr (''3.9.1'' @ [CHR 0x0A]), fs)),
      decode = Inr,
      strip = filter (\<lambda>c. c \<noteq> CHR 0x0A),
      can_write = (\<lambda>p fs. writable),
      json_dumps = show_json,
      json_loads = (\<lambda>t. if t = show_json demo_state then Inr demo_state else Inl ValueError),
      time_time = 17000000006 / 10,
      platform_platform = ''Linux-6.1-x86_64'',
      platform_release = ''6.1'',
      click_echo = (\<lambda>m. None)\<rparr>"

definition demo_world :: world where
  "demo_world =
     \<lparr>files = [(''/home/u/.profile'', ''keep''), (''/penv/old'', ''stale'')], trace = []\<rparr>"

section \<open>Properties\<close>

subsection \<open>Traces and the collaborators\<close>

lemma runs_append: "runs (xs @ ys) = runs xs @ runs ys"
  by (induction xs rule: runs.induct) simp_all

lemma downloads_append: "downloads (xs @ ys) = downloads xs @ downloads ys"
  by (induction xs rule: downloads.induct) simp_all


lemma new_events_append: "trace w' = trace w @ evs \<Longrightarrow> new_events w w' = evs"
  by (simp add: new_events_def)

lemma cleared_safe_remove_dir: "cleared d (files (safe_remove_dir d w))"
  by (simp add: cleared_def safe_remove_dir_def list_all_iff)

lemma trace_safe_remove_dir: "trace (safe_remove_dir d w) = trace w @ [RemoveDir d]"
  by (simp add: safe_remove_dir_def)

lemma subprocess_run_eq:
  "subprocess_run s c w =
     (fst (run s c (files w)),
      \<lparr>files = snd (run s c (files w)),
       trace = trace w @ [Run c (files w) (fst (run s c (files w)))]\<rparr>)"
  by (simp add: subprocess_run_def split: prod.splits)

lemma util_download_file_eq:
  "util_download_file s url dst w =
     (fst (download_file s url dst (files w)),
      \<lparr>files = snd (download_file s url dst (files w)),
       trace = trace w @ [Download url dst (files w) (fst (download_file s url dst (files w)))]\<rparr>)"
  by (simp add: util_download_file_def split: prod.splits)

subsection \<open>The local strategies\<close>

lemma distinct_venv_cmd_options: "distinct (venv_cmd_options python_exe penv_dir)"
  by (simp add: venv_cmd_options_def)

lemma length_venv_cmd_options: "length (venv_cmd_options python_exe penv_dir) = 5"
  by (simp add: venv_cmd_options_def)

lemma count_list_take_distinct:
  assumes "distinct xs" "j < length xs"
  shows "count_list (take n xs) (xs ! j) = (if j < n then 1 else 0)"
proof -
  have c: "count_list ys x = (if x \<in> set ys then 1 else 0)" if "distinct ys" for ys :: "'a list" and x
    using that by (induction ys) auto
  have "xs ! j \<in> set (take n xs) \<longleftrightarrow> j < n"
  proof
    assume "xs ! j \<in> set (take n xs)"
    then obtain i where i: "i < length (take n xs)" "take n xs ! i = xs ! j"
      by (auto simp: in_set_conv_nth)
    then have "xs ! i = xs ! j" "i < length xs" "i < n" by simp_all
    with assms have "i = j" by (simp add: nth_eq_iff_index_eq)
    with \<open>i < n\<close> show "j < n" by simp
  next
    assume "j < n"
    with assms(2) have "take n xs ! j = xs ! j" "j < length (take n xs)" by simp_all
    then show "xs ! j \<in> set (take n xs)" by (metis nth_mem)
  qed
  with c [of "take n xs" "xs ! j"] assms(1) show ?thesis by simp
qed

lemma try_commands_first_success:
  assumes "k < length cmds"
    and "\<forall>i<k. \<forall>fs. fst (run s (cmds ! i) fs) \<noteq> None"
    and "\<forall>fs. fst (run s (cmds ! k) fs) = None"
  shows "\<exists>evs errs. trace (snd (try_commands s d cmds le w)) = trace w @ evs
            \<and> length errs = k
            \<and> runs evs = zip (take (Suc k) cmds) (map Some errs @ [None])
            \<and> fst (try_commands s d cmds le w) = Inr d"
  using assms
proof (induction cmds arbitrary: k le w)
  case Nil
  then show ?case by simp
next
  case (Cons c cmds)
  let ?w0 = "safe_remove_dir d w"
  let ?r = "fst (run s c (files ?w0))"
  let ?w1 = "snd (subprocess_run s c ?w0)"
  have tr: "trace ?w1 = trace w @ [RemoveDir d, Run c (files ?w0) ?r]"
    by (simp add: subprocess_run_eq trace_safe_remove_dir)
  show ?case
  proof (cases k)
    case 0
    with Cons.prems have r: "?r = None" by simp
    then have eq: "try_commands s d (c # cmds) le w = (Inr d, ?w1)"
      by (simp add: subprocess_run_eq)
    show ?thesis
      unfolding eq using tr r 0
      by (intro exI [of _ "[RemoveDir d, Run c (files ?w0) None]"] exI [of _ "[]"]) simp
  next
    case (Suc k')
    with Cons.prems have "?r \<noteq> None" by fastforce
    then obtain e where r: "?r = Some e" by blast
    then have eq: "try_commands s d (c # cmds) le w = try_commands s d cmds (Some e) ?w1"
      by (simp add: subprocess_run_eq)
    have "k' < length cmds" using Cons.prems Suc by simp
    moreover have "\<forall>i<k'. \<forall>fs. fst (run s (cmds ! i) fs) \<noteq> None"
      using Cons.prems(2) Suc by fastforce
    moreover have "\<forall>fs. fst (run s (cmds ! k') fs) = None"
      using Cons.prems(3) Suc by simp
    ultimately obtain evs errs where
      a: "trace (snd (try_commands s d cmds (Some e) ?w1)) = trace ?w1 @ evs"
      and b: "length errs = k'"
      and c: "runs evs = zip (take (Suc k') cmds) (map Some errs @ [None])"
      and d: "fst (try_commands s d cmds (Some e) ?w1) = Inr d"
      using Cons.IH [of k' "Some e" ?w1] by blast
    show ?thesis
      unfolding eq using a b c d tr r Suc
      by (intro exI [of _ "[RemoveDir d, Run c (files ?w0) (Some e)] @ evs"] exI [of _ "e # errs"])
         (simp add: runs_append)
  qed
qed

text \<open>
  Claim C1. Take any interpreter, any target and any \<open>k\<close> among the five local
  strategies, listed in the order venv module, virtualenv module with \<open>-p\<close>, standalone
  virtualenv with \<open>-p\<close>, virtualenv module, standalone virtualenv. If the commands of
  the strategies before \<open>k\<close> exit with an error and the command of strategy \<open>k\<close>
  exits without one, then the commands run by \<open>create_with_local_venv\<close> are exactly
  the first \<open>k\<close> strategies in that order followed by strategy \<open>k\<close>: the earlier ones
  fail, each is run once, the later ones are not run at all, and the target path is
  returned. (Strategies are counted from 0 here.)
\<close>

theorem local_first_success:
  assumes "k < length (venv_cmd_options python_exe penv_dir)"
    and "\<forall>i<k. \<forall>fs. fst (run s (venv_cmd_options python_exe penv_dir ! i) fs) \<noteq> None"
    and "\<forall>fs. fst (run s (venv_cmd_options python_exe penv_dir ! k) fs) = None"
  shows "map fst (runs (new_events w (snd (create_with_local_venv s python_exe penv_dir w))))
           = take (Suc k) (venv_cmd_options python_exe penv_dir)
       \<and> (\<forall>i<k. snd (runs (new_events w (snd (create_with_local_venv s python_exe penv_dir w))) ! i)
             \<noteq> None)
       \<and> snd (runs (new_events w (snd (create_with_local_venv s python_exe penv_dir w))) ! k) = None
       \<and> (\<forall>j<5. count_list
             (map fst (runs (new_events w (snd (create_with_local_venv s python_exe penv_dir w)))))
             (venv_cmd_options python_exe penv_dir ! j) = (if j \<le> k then 1 else 0))
       \<and> fst (create_with_local_venv s python_exe penv_dir w) = Inr penv_dir"
proof -
  let ?cmds = "venv_cmd_options python_exe penv_dir"
  let ?w' = "snd (create_with_local_venv s python_exe penv_dir w)"
  from try_commands_first_success [OF assms, of penv_dir None w]
  obtain evs errs where tr: "trace ?w' = trace w @ evs"
    and len: "length errs = k"
    and rs: "runs evs = zip (take (Suc k) ?cmds) (map Some errs @ [None])"
    and res: "fst (create_with_local_venv s python_exe penv_dir w) = Inr penv_dir"
    unfolding create_with_local_venv_def by blast
  have ev: "new_events w ?w' = evs"
    using tr by (rule new_events_append)
  have l: "length (take (Suc k) ?cmds) = length (map Some errs @ [None])"
    using assms(1) len by simp
  have cmds: "map fst (runs evs) = take (Suc k) ?cmds"
    unfolding rs using l by (rule map_fst_zip)
  have outs: "map snd (runs evs) = map Some errs @ [None]"
    unfolding rs using l by (rule map_snd_zip)
  have lr: "length (runs evs) = Suc k"
    using arg_cong [OF outs, of length] len by simp
  have fails: "snd (runs evs ! i) \<noteq> None" if "i < k" for i
  proof -
    have "snd (runs evs ! i) = map snd (runs evs) ! i" using that lr by simp
    also have "\<dots> = Some (errs ! i)" unfolding outs using that len by (simp add: nth_append)
    finally show ?thesis by simp
  qed
  have ok: "snd (runs evs ! k) = None"
  proof -
    have "snd (runs evs ! k) = map snd (runs evs) ! k" using lr by simp
    also have "\<dots> = None" unfolding outs using len by (simp add: nth_append)
    finally show ?thesis .
  qed
  have cnt: "count_list (map fst (runs evs)) (?cmds ! j) = (if j \<le> k then 1 else 0)" if "j < 5" for j
    unfolding cmds
    using count_list_take_distinct [OF distinct_venv_cmd_options, of j python_exe penv_dir "Suc k"] that
    by (simp add: length_venv_cmd_options less_Suc_eq_le)
  show ?thesis
    unfolding ev using cmds fails ok cnt res by blast
qed

text \<open>
  On the example host only the standalone virtualenv with \<open>-p\<close> works: the first two
  strategies are tried and fail, the third builds the environment.
\<close>

theorem local_first_success_witness:
  "2 < length (venv_cmd_options ''/usr/bin/python3'' ''/penv'')
   \<and> (\<forall>fs. fst (run (demo_sys (\<lambda>c. c = [''virtualenv'', ''-p'', ''/usr/bin/python3'', ''/penv'']) True False)
          (venv_cmd_options ''/usr/bin/python3'' ''/penv'' ! 0) fs) \<noteq> None)
   \<and> (\<forall>fs. fst (run (demo_sys (\<lambda>c. c = [''virtualenv'', ''-p'', ''/usr/bin/python3'', ''/penv'']) True False)
          (venv_cmd_options ''/usr/bin/python3'' ''/penv'' ! 1) fs) \<noteq> None)
   \<and> (\<forall>fs. fst (run (demo_sys (\<lambda>c. c = [''virtualenv'', ''-p'', ''/usr/bin/python3'', ''/penv'']) True False)
          (venv_cmd_options ''/usr/bin/python3'' ''/penv'' ! 2) fs) = None)
   \<and> map fst (runs (new_events demo_world (snd (create_with_local_venv
          (demo_sys (\<lambda>c. c = [''virtualenv'', ''-p'', ''/usr/bin/python3'', ''/penv'']) True False)
          ''/usr/bin/python3'' ''/penv'' demo_world))))
        = [[''/usr/bin/python3'', ''-m'', ''venv'', ''/penv''],
           [''/usr/bin/python3'', ''-m'', ''virtualenv'', ''-p'', ''/usr/bin/python3'', ''/penv''],
           [''virtualenv'', ''-p'', ''/usr/bin/python3'', ''/penv'']]
   \<and> fst (create_with_local_venv
          (demo_sys (\<lambda>c. c = [''virtualenv'', ''-p'', ''/usr/bin/python3'', ''/penv'']) True False)
          ''/usr/bin/python3'' ''/penv'' demo_world) = Inr ''/penv''"
proof -
  let ?s = "demo_sys (\<lambda>c. c = [''virtualenv'', ''-p'', ''/usr/bin/python3'', ''/penv'']) True False"
  have h1: "2 < length (venv_cmd_options ''/usr/bin/python3'' ''/penv'')"
    by (simp add: venv_cmd_options_def)
  have h2: "\<forall>i<2. \<forall>fs. fst (run ?s (venv_cmd_options ''/usr/bin/python3'' ''/penv'' ! i) fs) \<noteq> None"
    by (simp add: venv_cmd_options_def demo_sys_def less_2_cases_iff)
  have h3: "\<forall>fs. fst (run ?s (venv_cmd_options ''/usr/bin/python3'' ''/penv'' ! 2) fs) = None"
    by (simp add: venv_cmd_options_def demo_sys_def)
  have t: "take (Suc 2) (venv_cmd_options ''/usr/bin/python3'' ''/penv'')
        = [[''/usr/bin/python3'', ''-m'', ''venv'', ''/penv''],
           [''/usr/bin/python3'', ''-m'', ''virtualenv'', ''-p'', ''/usr/bin/python3'', ''/penv''],
           [''virtualenv'', ''-p'', ''/usr/bin/python3'', ''/penv'']]"
    by (simp add: venv_cmd_options_def)
  have h20: "\<forall>fs. fst (run ?s (venv_cmd_options ''/usr/bin/python3'' ''/penv'' ! 0) fs) \<noteq> None"
    and h21: "\<forall>fs. fst (run ?s (venv_cmd_options ''/usr/bin/python3'' ''/penv'' ! 1) fs) \<noteq> None"
    using h2 by simp_all
  from local_first_success [OF h1 h2 h3, of demo_world] h1 h20 h21 h3 show ?thesis
    unfolding t by blast
qed

lemma runs_attempt_events: "runs (attempt_events d atts) = map (\<lambda>(c, fs, r). (c, r)) atts"
  by (induction atts) (auto simp: attempt_events_def)

lemma Run_in_attempt_events:
  "Run c fs r \<in> set (attempt_events d atts) \<longleftrightarrow> (c, fs, r) \<in> set atts"
  by (induction atts) (auto simp: attempt_events_def)

lemma local_result_step:
  assumes "local_result d cmds (Some e) atts r"
  shows "local_result d (c # cmds) le ((c, fs, Some e) # atts) r"
proof (cases r)
  case (Inl x)
  with assms obtain errs where "length atts = length cmds"
    "map (\<lambda>(c, fs, r). r) atts = map Some errs" "x = last (e # errs)"
    by (auto simp: local_result_def raised_def)
  then have "map (\<lambda>(c, fs, r). r) ((c, fs, Some e) # atts) = map Some (e # errs)
      \<and> x = last (raised le # e # errs)" by simp
  then show ?thesis using Inl \<open>length atts = length cmds\<close>
    unfolding local_result_def by (simp del: last.simps list.map; blast?)
next
  case (Inr p)
  with assms obtain errs where "p = d" "map (\<lambda>(c, fs, r). r) atts = map Some errs @ [None]"
    by (auto simp: local_result_def)
  then have "map (\<lambda>(c, fs, r). r) ((c, fs, Some e) # atts) = map Some (e # errs) @ [None]" by simp
  then show ?thesis using Inr \<open>p = d\<close>
    unfolding local_result_def by (simp del: list.map; blast?)
qed

lemma try_commands_events:
  "\<exists>atts. trace (snd (try_commands s d cmds le w)) = trace w @ attempt_events d atts
      \<and> map fst atts = take (length atts) cmds
      \<and> list_all (\<lambda>(c, fs, r). cleared d fs \<and> r = fst (run s c fs)) atts
      \<and> local_result d cmds le atts (fst (try_commands s d cmds le w))"
proof (induction cmds arbitrary: le w)
  case Nil
  show ?case
    by (rule exI [of _ "[]"]) (simp add: attempt_events_def local_result_def raised_def)
next
  case (Cons c cmds)
  let ?w0 = "safe_remove_dir d w"
  let ?r = "fst (run s c (files ?w0))"
  let ?w1 = "snd (subprocess_run s c ?w0)"
  have tr: "trace ?w1 = trace w @ [RemoveDir d, Run c (files ?w0) ?r]"
    by (simp add: subprocess_run_eq trace_safe_remove_dir)
  show ?case
  proof (cases ?r)
    case None
    then have eq: "try_commands s d (c # cmds) le w = (Inr d, ?w1)"
      by (simp add: subprocess_run_eq)
    have "local_result d (c # cmds) le [(c, files ?w0, None)] (Inr d)"
    proof -
      have "map (\<lambda>(c, fs, r). r) [(c, files ?w0, None :: exn option)] = map Some [] @ [None]"
        by simp
      then show ?thesis unfolding local_result_def by (simp del: list.map; blast?)
    qed
    then show ?thesis
      unfolding eq using None tr
      by (intro exI [of _ "[(c, files ?w0, None)]"])
         (simp add: attempt_events_def cleared_safe_remove_dir)
  next
    case (Some e)
    then have eq: "try_commands s d (c # cmds) le w = try_commands s d cmds (Some e) ?w1"
      by (simp add: subprocess_run_eq)
    from Cons.IH [of "Some e" ?w1] obtain atts where
      a: "trace (snd (try_commands s d cmds (Some e) ?w1)) = trace ?w1 @ attempt_events d atts"
      and b: "map fst atts = take (length atts) cmds"
      and c: "list_all (\<lambda>(c, fs, r). cleared d fs \<and> r = fst (run s c fs)) atts"
      and d: "local_result d cmds (Some e) atts (fst (try_commands s d cmds (Some e) ?w1))"
      by blast
    show ?thesis
      unfolding eq using a tr Some b c local_result_step [OF d, of c le "files ?w0"]
      by (intro exI [of _ "(c, files ?w0, Some e) # atts"])
         (simp add: attempt_events_def cleared_safe_remove_dir)
  qed
qed

subsection \<open>The remote strategy\<close>

lemma create_with_remote_venv_trace:
  "trace (snd (create_with_remote_venv s python_exe penv_dir w)) =
     trace w @ RemoveDir penv_dir
       # Download VIRTUALENV_URL (venv_cache_path penv_dir) (files (safe_remove_dir penv_dir w))
           (fst (download_file s VIRTUALENV_URL (venv_cache_path penv_dir)
                  (files (safe_remove_dir penv_dir w))))
       # (case fst (download_file s VIRTUALENV_URL (venv_cache_path penv_dir)
                     (files (safe_remove_dir penv_dir w))) of
            Inl e \<Rightarrow> []
          | Inr p \<Rightarrow>
              if truthy p
              then [Run [python_exe, the p, penv_dir]
                      (snd (download_file s VIRTUALENV_URL (venv_cache_path penv_dir)
                             (files (safe_remove_dir penv_dir w))))
                      (fst (run s [python_exe, the p, penv_dir]
                         (snd (download_file s VIRTUALENV_URL (venv_cache_path penv_dir)
                                (files (safe_remove_dir penv_dir w))))))]
              else [])"
  by (simp add: create_with_remote_venv_def util_download_file_eq subprocess_run_eq
        trace_safe_remove_dir split: sum.splits option.splits)

lemma create_with_remote_venv_result:
  "fst (create_with_remote_venv s python_exe penv_dir w) =
     (case fst (download_file s VIRTUALENV_URL (venv_cache_path penv_dir)
                  (files (safe_remove_dir penv_dir w))) of
        Inl e \<Rightarrow> Inl e
      | Inr p \<Rightarrow>
          if truthy p
          then (case fst (run s [python_exe, the p, penv_dir]
                         (snd (download_file s VIRTUALENV_URL (venv_cache_path penv_dir)
                                (files (safe_remove_dir penv_dir w))))) of
                  None \<Rightarrow> Inr penv_dir
                | Some e \<Rightarrow> Inl e)
          else Inl (PIOInstallerException ''Could not find virtualenv script''))"
  by (simp add: create_with_remote_venv_def util_download_file_eq subprocess_run_eq
        split: sum.splits option.splits)

text \<open>
  Claim C5. Every construction attempt starts by clearing the target directory
  (\<open>safe_remove_dir\<close>, as the spec describes it). The events of
  \<open>create_with_local_venv\<close> are pairs of the removal and the command, so each of the
  local commands is run right after a removal, and no file inside the target exists when
  it starts. \<open>create_with_remote_venv\<close> begins with the removal as well: the download
  starts on a cleared target, and the bootstrap script is run on the files the download
  left, so nothing of an earlier failed attempt is there.
\<close>

theorem target_cleared_before_attempts:
  "(\<exists>atts. new_events w (snd (create_with_local_venv s python_exe penv_dir w))
              = attempt_events penv_dir atts)
   \<and> (\<forall>c fs r. Run c fs r \<in> set (new_events w (snd (create_with_local_venv s python_exe penv_dir w)))
         \<longrightarrow> cleared penv_dir fs)
   \<and> (\<exists>fs res rest.
         new_events w (snd (create_with_remote_venv s python_exe penv_dir w))
           = RemoveDir penv_dir # Download VIRTUALENV_URL (venv_cache_path penv_dir) fs res # rest
         \<and> cleared penv_dir fs
         \<and> (\<forall>c fs' r. Run c fs' r \<in> set rest \<longrightarrow>
               fs' = snd (download_file s VIRTUALENV_URL (venv_cache_path penv_dir) fs)))"
proof (intro conjI)
  obtain atts where
    tr: "trace (snd (create_with_local_venv s python_exe penv_dir w))
           = trace w @ attempt_events penv_dir atts"
    and cl: "list_all (\<lambda>(c, fs, r). cleared penv_dir fs \<and> r = fst (run s c fs)) atts"
    using try_commands_events [of s penv_dir "venv_cmd_options python_exe penv_dir" None w]
    unfolding create_with_local_venv_def by blast
  have ev: "new_events w (snd (create_with_local_venv s python_exe penv_dir w))
              = attempt_events penv_dir atts"
    using tr by (rule new_events_append)
  show "\<exists>atts. new_events w (snd (create_with_local_venv s python_exe penv_dir w))
              = attempt_events penv_dir atts"
    using ev by blast
  show "\<forall>c fs r. Run c fs r \<in> set (new_events w (snd (create_with_local_venv s python_exe penv_dir w)))
         \<longrightarrow> cleared penv_dir fs"
    unfolding ev Run_in_attempt_events using cl by (auto simp: list_all_iff)
  let ?fs = "files (safe_remove_dir penv_dir w)"
  let ?dl = "download_file s VIRTUALENV_URL (venv_cache_path penv_dir) ?fs"
  let ?rest = "(case fst ?dl of
            Inl e \<Rightarrow> []
          | Inr p \<Rightarrow>
              if truthy p
              then [Run [python_exe, the p, penv_dir] (snd ?dl)
                      (fst (run s [python_exe, the p, penv_dir] (snd ?dl)))]
              else [])"
  have "new_events w (snd (create_with_remote_venv s python_exe penv_dir w))
          = RemoveDir penv_dir # Download VIRTUALENV_URL (venv_cache_path penv_dir) ?fs (fst ?dl) # ?rest"
    by (rule new_events_append) (simp add: create_with_remote_venv_trace)
  moreover have "cleared penv_dir ?fs"
    by (rule cleared_safe_remove_dir)
  moreover have "\<forall>c fs' r. Run c fs' r \<in> set ?rest \<longrightarrow> fs' = snd ?dl"
    by (auto split: sum.splits)
  ultimately show "\<exists>fs res rest.
         new_events w (snd (create_with_remote_venv s python_exe penv_dir w))
           = RemoveDir penv_dir # Download VIRTUALENV_URL (venv_cache_path penv_dir) fs res # rest
         \<and> cleared penv_dir fs
         \<and> (\<forall>c fs' r. Run c fs' r \<in> set rest \<longrightarrow>
               fs' = snd (download_file s VIRTUALENV_URL (venv_cache_path penv_dir) fs))"
    by blast
qed

text \<open>
  On the example host every command fails and leaves a partial file in the target; the
  stale file of the start and the partial files are gone whenever a command starts.
\<close>

theorem target_cleared_before_attempts_witness:
  "new_events demo_world (snd (create_with_local_venv (demo_sys (\<lambda>c. False) True False)
      ''/usr/bin/python3'' ''/penv'' demo_world))
     = attempt_events ''/penv''
         [([''/usr/bin/python3'', ''-m'', ''venv'', ''/penv''],
           [(''/home/u/.profile'', ''keep'')], Some CalledProcessError),
          ([''/usr/bin/python3'', ''-m'', ''virtualenv'', ''-p'', ''/usr/bin/python3'', ''/penv''],
           [(''/home/u/.profile'', ''keep'')], Some CalledProcessError),
          ([''virtualenv'', ''-p'', ''/usr/bin/python3'', ''/penv''],
           [(''/home/u/.profile'', ''keep'')], Some CalledProcessError),
          ([''/usr/bin/python3'', ''-m'', ''virtualenv'', ''/penv''],
           [(''/home/u/.profile'', ''keep'')], Some CalledProcessError),
          ([''virtualenv'', ''/penv''],
           [(''/home/u/.profile'', ''keep'')], Some CalledProcessError)]
   \<and> files (snd (create_with_local_venv (demo_sys (\<lambda>c. False) True False)
      ''/usr/bin/python3'' ''/penv'' demo_world))
     = [(''/home/u/.profile'', ''keep''), (''/penv/partial'', ''junk'')]
   \<and> cleared ''/penv'' [(''/home/u/.profile'', ''keep'')]
   \<and> \<not> cleared ''/penv'' [(''/home/u/.profile'', ''keep''), (''/penv/partial'', ''junk'')]"
  using target_cleared_before_attempts
    [of demo_world "demo_sys (\<lambda>c. False) True False" "''/usr/bin/python3''" "''/penv''"]
  by (simp add: create_with_local_venv_def venv_cmd_options_def demo_sys_def demo_world_def
        new_events_def safe_remove_dir_def subprocess_run_eq inside_def attempt_events_def
        cleared_def)

subsection \<open>One interpreter: local strategies, then the remote one\<close>

lemma downloads_attempt_events: "downloads (attempt_events d atts) = []"
  by (induction atts) (auto simp: attempt_events_def)


lemma try_commands_all_fail:
  assumes "\<forall>c \<in> set cmds. \<forall>fs. fst (run s c fs) \<noteq> None"
  shows "\<exists>atts e. trace (snd (try_commands s d cmds le w)) = trace w @ attempt_events d atts
           \<and> map fst atts = cmds
           \<and> fst (try_commands s d cmds le w) = Inl e"
proof -
  obtain atts where
    tr: "trace (snd (try_commands s d cmds le w)) = trace w @ attempt_events d atts"
    and pre: "map fst atts = take (length atts) cmds"
    and ok: "list_all (\<lambda>(c, fs, r). cleared d fs \<and> r = fst (run s c fs)) atts"
    and res: "local_result d cmds le atts (fst (try_commands s d cmds le w))"
    using try_commands_events [of s d cmds le w] by blast
  have failed: "r \<noteq> None" if "(c, fs, r) \<in> set atts" for c fs r
  proof -
    have "c \<in> set (map fst atts)" using that by force
    then have "c \<in> set cmds" unfolding pre by (rule in_set_takeD)
    moreover have "r = fst (run s c fs)" using ok that by (auto simp: list_all_iff)
    ultimately show ?thesis using assms by simp
  qed
  show ?thesis
  proof (cases "fst (try_commands s d cmds le w)")
    case (Inl e)
    with res have "length atts = length cmds" by (simp add: local_result_def)
    with pre have "map fst atts = cmds" by simp
    with tr Inl show ?thesis by blast
  next
    case (Inr p)
    with res obtain errs where "map (\<lambda>(c, fs, r). r) atts = map Some errs @ [None]"
      by (auto simp: local_result_def)
    then have "None \<in> set (map (\<lambda>(c, fs, r). r) atts)" by simp
    then obtain c fs where "(c, fs, None) \<in> set atts" by auto
    with failed show ?thesis by blast
  qed
qed

text \<open>
  Claim C2. If the five local commands of an interpreter exit with an error, all five are
  run and \<open>create_virtualenv\<close> goes on to the remote strategy, once: the bootstrap
  script is downloaded once to the cache location beside the target, and when the
  download gives a path the script is run once with the interpreter against the target.
  \<open>create_virtualenv\<close> returns the target when that run exits without error and
  \<open>None\<close> in every other case; it raises nothing, and on \<open>None\<close> the loop over the
  interpreters continues with the next one.
\<close>

theorem remote_once_after_local_failure:
  assumes "\<forall>c \<in> set (venv_cmd_options python_exe penv_dir). \<forall>fs. fst (run s c fs) \<noteq> None"
  shows "map fst (runs (new_events w (snd (create_with_local_venv s python_exe penv_dir w))))
           = venv_cmd_options python_exe penv_dir
     \<and> downloads (new_events w (snd (create_virtualenv s python_exe penv_dir w)))
           = [(VIRTUALENV_URL, venv_cache_path penv_dir,
               fst (download_file s VIRTUALENV_URL (venv_cache_path penv_dir)
                 (files (safe_remove_dir penv_dir
                    (snd (create_with_local_venv s python_exe penv_dir w))))))]
     \<and> runs (new_events (snd (create_with_local_venv s python_exe penv_dir w))
                (snd (create_virtualenv s python_exe penv_dir w)))
           = (case fst (download_file s VIRTUALENV_URL (venv_cache_path penv_dir)
                    (files (safe_remove_dir penv_dir
                       (snd (create_with_local_venv s python_exe penv_dir w))))) of
                Inl e \<Rightarrow> []
              | Inr p \<Rightarrow>
                  if truthy p
                  then [([python_exe, the p, penv_dir],
                         fst (run s [python_exe, the p, penv_dir]
                           (snd (download_file s VIRTUALENV_URL (venv_cache_path penv_dir)
                             (files (safe_remove_dir penv_dir
                                (snd (create_with_local_venv s python_exe penv_dir w))))))))]
                  else [])
     \<and> fst (create_virtualenv s python_exe penv_dir w)
           = (case fst (download_file s VIRTUALENV_URL (venv_cache_path penv_dir)
                    (files (safe_remove_dir penv_dir
                       (snd (create_with_local_venv s python_exe penv_dir w))))) of
                Inl e \<Rightarrow> None
              | Inr p \<Rightarrow>
                  if truthy p \<and>
                     fst (run s [python_exe, the p, penv_dir]
                           (snd (download_file s VIRTUALENV_URL (venv_cache_path penv_dir)
                             (files (safe_remove_dir penv_dir
                                (snd (create_with_local_venv s python_exe penv_dir w))))))) = None
                  then Some penv_dir else None)
     \<and> (fst (create_virtualenv s python_exe penv_dir w) = None \<longrightarrow>
          try_pythons s (python_exe # rest) penv_dir w
            = try_pythons s rest penv_dir (snd (create_virtualenv s python_exe penv_dir w)))"
proof -
  let ?w1 = "snd (create_with_local_venv s python_exe penv_dir w)"
  let ?w2 = "snd (create_virtualenv s python_exe penv_dir w)"
  let ?dl = "download_file s VIRTUALENV_URL (venv_cache_path penv_dir)
               (files (safe_remove_dir penv_dir ?w1))"
  obtain atts e where
    tr1: "trace ?w1 = trace w @ attempt_events penv_dir atts"
    and cmds: "map fst atts = venv_cmd_options python_exe penv_dir"
    and res1: "fst (create_with_local_venv s python_exe penv_dir w) = Inl e"
    using try_commands_all_fail [OF assms, of penv_dir None w]
    unfolding create_with_local_venv_def by blast
  have cv: "create_virtualenv s python_exe penv_dir w =
      (case fst (create_with_remote_venv s python_exe penv_dir ?w1) of
         Inr d \<Rightarrow> Some d | Inl exc \<Rightarrow> None,
       snd (create_with_remote_venv s python_exe penv_dir ?w1))"
  proof -
    obtain w1 where l: "create_with_local_venv s python_exe penv_dir w = (Inl e, w1)"
      using res1 by (cases "create_with_local_venv s python_exe penv_dir w") auto
    show ?thesis
      unfolding create_virtualenv_def l by (simp split: prod.splits sum.splits)
  qed
  have w2: "?w2 = snd (create_with_remote_venv s python_exe penv_dir ?w1)"
    by (simp add: cv)
  have ev1: "new_events w ?w1 = attempt_events penv_dir atts"
    using tr1 by (rule new_events_append)
  have c1: "map fst (runs (new_events w ?w1)) = venv_cmd_options python_exe penv_dir"
    unfolding ev1 runs_attempt_events using cmds by (simp add: comp_def case_prod_unfold)
  let ?rest = "case fst ?dl of
            Inl e \<Rightarrow> []
          | Inr p \<Rightarrow>
              if truthy p
              then [Run [python_exe, the p, penv_dir] (snd ?dl)
                      (fst (run s [python_exe, the p, penv_dir] (snd ?dl)))]
              else []"
  have tr2: "trace ?w2 = trace ?w1 @
      (RemoveDir penv_dir
       # Download VIRTUALENV_URL (venv_cache_path penv_dir) (files (safe_remove_dir penv_dir ?w1))
           (fst ?dl) # ?rest)"
    unfolding w2 by (simp add: create_with_remote_venv_trace)
  have ev2: "new_events ?w1 ?w2 =
      RemoveDir penv_dir
       # Download VIRTUALENV_URL (venv_cache_path penv_dir) (files (safe_remove_dir penv_dir ?w1))
           (fst ?dl) # ?rest"
    using tr2 by (rule new_events_append)
  have ev: "new_events w ?w2 = attempt_events penv_dir atts @
      (RemoveDir penv_dir
       # Download VIRTUALENV_URL (venv_cache_path penv_dir) (files (safe_remove_dir penv_dir ?w1))
           (fst ?dl) # ?rest)"
    by (rule new_events_append) (simp add: tr2 tr1)
  have dr: "downloads ?rest = []"
    by (simp split: sum.splits)
  have c2: "downloads (new_events w ?w2) = [(VIRTUALENV_URL, venv_cache_path penv_dir, fst ?dl)]"
    unfolding ev by (simp add: downloads_append downloads_attempt_events dr)
  have c3: "runs (new_events ?w1 ?w2) =
      (case fst ?dl of
         Inl e \<Rightarrow> []
       | Inr p \<Rightarrow>
           if truthy p
           then [([python_exe, the p, penv_dir],
                  fst (run s [python_exe, the p, penv_dir] (snd ?dl)))]
           else [])"
    unfolding ev2 by (simp split: sum.splits)
  have c4: "fst (create_virtualenv s python_exe penv_dir w) =
      (case fst ?dl of
         Inl e \<Rightarrow> None
       | Inr p \<Rightarrow>
           if truthy p \<and> fst (run s [python_exe, the p, penv_dir] (snd ?dl)) = None
           then Some penv_dir else None)"
    unfolding cv by (simp add: create_with_remote_venv_result split: sum.splits option.splits)
  have c5: "fst (create_virtualenv s python_exe penv_dir w) = None \<longrightarrow>
          try_pythons s (python_exe # rest) penv_dir w = try_pythons s rest penv_dir ?w2"
    by (simp add: truthy_def split: prod.splits)
  from c1 c2 c3 c4 c5 show ?thesis by blast
qed

text \<open>
  On the example host the five local commands and the downloaded script fail: one
  download, one run of the script, no environment, and the next interpreter is tried.
\<close>

theorem remote_once_after_local_failure_witness:
  "downloads (new_events demo_world (snd (create_virtualenv (demo_sys (\<lambda>c. False) True False)
      ''/usr/bin/python3'' ''/penv'' demo_world)))
     = [(''https://bootstrap.pypa.io/virtualenv/virtualenv.pyz'', ''/.cache/tmp/virtualenv.pyz'',
         Inr (Some ''/.cache/tmp/virtualenv.pyz''))]
   \<and> runs (new_events
        (snd (create_with_local_venv (demo_sys (\<lambda>c. False) True False)
           ''/usr/bin/python3'' ''/penv'' demo_world))
        (snd (create_virtualenv (demo_sys (\<lambda>c. False) True False)
           ''/usr/bin/python3'' ''/penv'' demo_world)))
     = [([''/usr/bin/python3'', ''/.cache/tmp/virtualenv.pyz'', ''/penv''], Some CalledProcessError)]
   \<and> fst (create_virtualenv (demo_sys (\<lambda>c. False) True False)
        ''/usr/bin/python3'' ''/penv'' demo_world) = None
   \<and> try_pythons (demo_sys (\<lambda>c. False) True False)
        [''/usr/bin/python3'', ''/usr/bin/python3.9''] ''/penv'' demo_world
     = try_pythons (demo_sys (\<lambda>c. False) True False) [''/usr/bin/python3.9''] ''/penv''
         (snd (create_virtualenv (demo_sys (\<lambda>c. False) True False)
            ''/usr/bin/python3'' ''/penv'' demo_world))"
proof -
  let ?s = "demo_sys (\<lambda>c. False) True False"
  have h: "\<forall>c \<in> set (venv_cmd_options ''/usr/bin/python3'' ''/penv''). \<forall>fs. fst (run ?s c fs) \<noteq> None"
    by (simp add: demo_sys_def)
  have dl: "fst (download_file ?s VIRTUALENV_URL (venv_cache_path ''/penv'') fs)
      = Inr (Some ''/.cache/tmp/virtualenv.pyz'')" for fs
    by (simp add: demo_sys_def venv_cache_path_def VIRTUALENV_URL_def os_path_join_def
          os_path_dirname_def os_path_basename_def)
  have r: "fst (run ?s c fs) = Some CalledProcessError" for c fs
    by (simp add: demo_sys_def)
  have u: "VIRTUALENV_URL = ''https://bootstrap.pypa.io/virtualenv/virtualenv.pyz''"
    "venv_cache_path ''/penv'' = ''/.cache/tmp/virtualenv.pyz''"
    by (simp_all add: venv_cache_path_def VIRTUALENV_URL_def os_path_join_def
          os_path_dirname_def os_path_basename_def)
  from remote_once_after_local_failure [OF h, of demo_world "[''/usr/bin/python3.9'']"]
  show ?thesis
    unfolding dl r by (simp add: truthy_def u)
qed

subsection \<open>All interpreters, and the portable one\<close>












subsection \<open>Upgrading pip\<close>

lemma update_pip_unfold:
  "update_pip s python_exe penv_dir w =
     (let conf = os_path_join penv_dir ''pip.conf'';
          fs1 = AList.update conf pip_conf (files w);
          primary = [python_exe, ''-m'', ''pip'', ''install'', ''-U'', ''pip''];
          p = run s primary fs1;
          dl = download_file s PIP_URL (get_pip_path penv_dir) (snd p);
          fallback = [python_exe, get_pip_path penv_dir];
          fb = run s fallback (snd dl);
          opening = click_echo s ''Updating Python package manager (PIP) in the virtual environment'';
          closing = click_echo s ''PIP has been successfully updated!''
      in if opening \<noteq> None then (Inl (the opening), w)
         else if \<not> can_write s conf (files w) then (Inr False, w)
         else if fst p = None
           then (Inr (closing = None),
                 \<lparr>files = snd p, trace = trace w @ [Run primary fs1 (fst p)]\<rparr>)
         else if fst p \<noteq> Some CalledProcessError
           then (Inr False, \<lparr>files = snd p, trace = trace w @ [Run primary fs1 (fst p)]\<rparr>)
         else if isl (fst dl)
           then (Inr False, \<lparr>files = snd dl,
                   trace = trace w @ [Run primary fs1 (fst p),
                     Download PIP_URL (get_pip_path penv_dir) (snd p) (fst dl)]\<rparr>)
         else (Inr (fst fb = None \<and> closing = None), \<lparr>files = snd fb,
                   trace = trace w @ [Run primary fs1 (fst p),
                     Download PIP_URL (get_pip_path penv_dir) (snd p) (fst dl),
                     Run fallback (snd dl) (fst fb)]\<rparr>))"
  by (auto simp: update_pip_def update_pip_try_def update_pip_upgrade_def open_write_def
        subprocess_run_eq util_download_file_eq Let_def split: option.splits sum.splits)

text \<open>
  Claim C4, as the code has it. Once its opening message is written, \<open>update_pip\<close>
  raises nothing: the outer \<open>except Exception\<close> turns every exception of the body into
  \<open>False\<close>. It then returns \<open>True\<close> exactly when \<open>pip.conf\<close> is written, either
  the primary command (\<open>python -m pip install -U pip\<close>) exits without error, or it
  fails with \<open>CalledProcessError\<close>, the download of \<open>get-pip.py\<close> raises nothing and
  the script, run with the environment's interpreter, exits without error, and the
  closing message is written. In every other case it returns \<open>False\<close>. When the
  primary command succeeds nothing is downloaded and no other command is run.
\<close>

theorem update_pip_result:
  "(click_echo s ''Updating Python package manager (PIP) in the virtual environment'' = None
      \<longrightarrow> fst (update_pip s python_exe penv_dir w) = Inr
           (can_write s (os_path_join penv_dir ''pip.conf'') (files w)
            \<and> (fst (run s [python_exe, ''-m'', ''pip'', ''install'', ''-U'', ''pip'']
                 (AList.update (os_path_join penv_dir ''pip.conf'') pip_conf (files w))) = None
               \<or> fst (run s [python_exe, ''-m'', ''pip'', ''install'', ''-U'', ''pip'']
                 (AList.update (os_path_join penv_dir ''pip.conf'') pip_conf (files w))) = Some CalledProcessError
                 \<and> \<not> isl (fst (download_file s PIP_URL (get_pip_path penv_dir)
                 (snd (run s [python_exe, ''-m'', ''pip'', ''install'', ''-U'', ''pip'']
                 (AList.update (os_path_join penv_dir ''pip.conf'') pip_conf (files w))))))
                 \<and> fst (run s [python_exe, get_pip_path penv_dir]
                 (snd (download_file s PIP_URL (get_pip_path penv_dir)
                 (snd (run s [python_exe, ''-m'', ''pip'', ''install'', ''-U'', ''pip'']
                 (AList.update (os_path_join penv_dir ''pip.conf'') pip_conf (files w))))))) = None)
            \<and> click_echo s ''PIP has been successfully updated!'' = None))
   \<and> (click_echo s ''Updating Python package manager (PIP) in the virtual environment'' = None
        \<and> can_write s (os_path_join penv_dir ''pip.conf'') (files w)
        \<and> fst (run s [python_exe, ''-m'', ''pip'', ''install'', ''-U'', ''pip'']
                 (AList.update (os_path_join penv_dir ''pip.conf'') pip_conf (files w))) = None
      \<longrightarrow> downloads (new_events w (snd (update_pip s python_exe penv_dir w))) = []
          \<and> runs (new_events w (snd (update_pip s python_exe penv_dir w)))
              = [([python_exe, ''-m'', ''pip'', ''install'', ''-U'', ''pip''], None)])"
  by (simp add: update_pip_unfold Let_def new_events_def)

text \<open>
  On the example host: a failing primary command with a working bootstrap script gives
  \<open>True\<close> after both were run; a working primary command gives \<open>True\<close> without a
  download.
\<close>

theorem update_pip_result_witness:
  "fst (update_pip (demo_sys (\<lambda>c. length c = 2) True False)
          ''/penv/bin/python'' ''/penv'' demo_world) = Inr True
   \<and> runs (new_events demo_world (snd (update_pip (demo_sys (\<lambda>c. length c = 2) True False)
          ''/penv/bin/python'' ''/penv'' demo_world)))
       = [([''/penv/bin/python'', ''-m'', ''pip'', ''install'', ''-U'', ''pip''],
           Some CalledProcessError),
          ([''/penv/bin/python'', ''/.cache/tmp/get-pip.py''], None)]
   \<and> fst (update_pip (demo_sys (\<lambda>c. length c = 6) True False)
          ''/penv/bin/python'' ''/penv'' demo_world) = Inr True
   \<and> downloads (new_events demo_world (snd (update_pip (demo_sys (\<lambda>c. length c = 6) True False)
          ''/penv/bin/python'' ''/penv'' demo_world))) = []"
proof -
  have a: "fst (update_pip (demo_sys (\<lambda>c. length c = 2) True False)
          ''/penv/bin/python'' ''/penv'' demo_world) = Inr True"
    using update_pip_result
      [of "demo_sys (\<lambda>c. length c = 2) True False" "''/penv/bin/python''" "''/penv''" demo_world]
    by (simp add: demo_sys_def)
  have b: "runs (new_events demo_world (snd (update_pip (demo_sys (\<lambda>c. length c = 2) True False)
          ''/penv/bin/python'' ''/penv'' demo_world)))
       = [([''/penv/bin/python'', ''-m'', ''pip'', ''install'', ''-U'', ''pip''],
           Some CalledProcessError),
          ([''/penv/bin/python'', ''/.cache/tmp/get-pip.py''], None)]"
    by (simp add: update_pip_unfold Let_def new_events_def demo_sys_def get_pip_path_def
          PIP_URL_def os_path_join_def os_path_dirname_def os_path_basename_def)
  have c: "fst (update_pip (demo_sys (\<lambda>c. length c = 6) True False)
          ''/penv/bin/python'' ''/penv'' demo_world) = Inr True
      \<and> downloads (new_events demo_world (snd (update_pip (demo_sys (\<lambda>c. length c = 6) True False)
          ''/penv/bin/python'' ''/penv'' demo_world))) = []"
    using update_pip_result
      [of "demo_sys (\<lambda>c. length c = 6) True False" "''/penv/bin/python''" "''/penv''" demo_world]
    by (simp add: demo_sys_def)
  from a b c show ?thesis by blast
qed

text \<open>
  Claim C4 as it is written says that \<open>update_pip\<close> never raises, that \<open>False\<close> is
  returned only if the primary command and the fallback both fail, and \<open>True\<close>
  whenever the primary command succeeds, or fails while the bootstrap script succeeds.
  On a host where no message can be written, \<open>update_pip\<close> raises the exception of
  its opening message. On a host where \<open>pip.conf\<close> cannot be written and every
  command would exit without error, it returns \<open>False\<close> and has run no command and
  downloaded nothing: neither step has failed. On a host where the primary command
  cannot be started (\<open>OSError\<close>) and the bootstrap script would exit without error, it
  returns \<open>False\<close> as well, and the primary command is all it has run. On a host
  where the primary command succeeds and the closing message cannot be written, it
  returns \<open>False\<close>.
\<close>

theorem update_pip_false_counterexample:
  "fst (update_pip ((demo_sys (\<lambda>c. True) True False)\<lparr>click_echo := (\<lambda>m. Some OSError)\<rparr>)
          ''/penv/bin/python'' ''/penv'' demo_world) = Inl OSError
   \<and> fst (update_pip (demo_sys (\<lambda>c. True) False False)
          ''/penv/bin/python'' ''/penv'' demo_world) = Inr False
   \<and> runs (new_events demo_world (snd (update_pip (demo_sys (\<lambda>c. True) False False)
          ''/penv/bin/python'' ''/penv'' demo_world))) = []
   \<and> downloads (new_events demo_world (snd (update_pip (demo_sys (\<lambda>c. True) False False)
          ''/penv/bin/python'' ''/penv'' demo_world))) = []
   \<and> (\<forall>c fs. fst (run (demo_sys (\<lambda>c. True) False False) c fs) = None)
   \<and> fst (update_pip
          ((demo_sys (\<lambda>c. True) True False)
             \<lparr>run := (\<lambda>c fs. if length c = 6 then (Some OSError, fs) else (None, fs))\<rparr>)
          ''/penv/bin/python'' ''/penv'' demo_world) = Inr False
   \<and> runs (new_events demo_world (snd (update_pip
          ((demo_sys (\<lambda>c. True) True False)
             \<lparr>run := (\<lambda>c fs. if length c = 6 then (Some OSError, fs) else (None, fs))\<rparr>)
          ''/penv/bin/python'' ''/penv'' demo_world)))
       = [([''/penv/bin/python'', ''-m'', ''pip'', ''install'', ''-U'', ''pip''], Some OSError)]
   \<and> (\<forall>fs. fst (run
          ((demo_sys (\<lambda>c. True) True False)
             \<lparr>run := (\<lambda>c fs. if length c = 6 then (Some OSError, fs) else (None, fs))\<rparr>)
          [''/penv/bin/python'', get_pip_path ''/penv''] fs) = None)
   \<and> fst (update_pip
          ((demo_sys (\<lambda>c. True) True False)
             \<lparr>click_echo := (\<lambda>m. if m = ''PIP has been successfully updated!'' then Some OSError else None)\<rparr>)
          ''/penv/bin/python'' ''/penv'' demo_world) = Inr False
   \<and> runs (new_events demo_world (snd (update_pip
          ((demo_sys (\<lambda>c. True) True False)
             \<lparr>click_echo := (\<lambda>m. if m = ''PIP has been successfully updated!'' then Some OSError else None)\<rparr>)
          ''/penv/bin/python'' ''/penv'' demo_world)))
       = [([''/penv/bin/python'', ''-m'', ''pip'', ''install'', ''-U'', ''pip''], None)]"
  by (simp add: update_pip_unfold Let_def new_events_def demo_sys_def)

text \<open>
  Claim C10. The fallback of \<open>update_pip\<close> belongs to
  \<open>except subprocess.CalledProcessError\<close>. When \<open>pip.conf\<close> cannot be written
  nothing is downloaded and no command is run, and the call, once its opening message is
  written, returns \<open>False\<close> and leaves the world as it was. When the primary command
  fails with another exception nothing is downloaded and no other command is run, and the
  call, once its opening message is written, returns \<open>False\<close> after that one command.
  And whenever \<open>get-pip.py\<close> is downloaded or run, the file was written and the primary
  command failed with \<open>CalledProcessError\<close>.
\<close>

theorem pip_fallback_only_on_process_exit_error:
  "(\<not> can_write s (os_path_join penv_dir ''pip.conf'') (files w)
      \<longrightarrow> downloads (new_events w (snd (update_pip s python_exe penv_dir w))) = []
          \<and> runs (new_events w (snd (update_pip s python_exe penv_dir w))) = []
          \<and> (click_echo s ''Updating Python package manager (PIP) in the virtual environment'' = None
               \<longrightarrow> update_pip s python_exe penv_dir w = (Inr False, w)))
   \<and> (\<forall>e. can_write s (os_path_join penv_dir ''pip.conf'') (files w)
          \<and> fst (run s [python_exe, ''-m'', ''pip'', ''install'', ''-U'', ''pip'']
                 (AList.update (os_path_join penv_dir ''pip.conf'') pip_conf (files w))) = Some e
          \<and> e \<noteq> CalledProcessError
        \<longrightarrow> downloads (new_events w (snd (update_pip s python_exe penv_dir w))) = []
          \<and> set (runs (new_events w (snd (update_pip s python_exe penv_dir w))))
              \<subseteq> {([python_exe, ''-m'', ''pip'', ''install'', ''-U'', ''pip''], Some e)}
          \<and> (click_echo s ''Updating Python package manager (PIP) in the virtual environment'' = None
               \<longrightarrow> fst (update_pip s python_exe penv_dir w) = Inr False
                 \<and> runs (new_events w (snd (update_pip s python_exe penv_dir w)))
                     = [([python_exe, ''-m'', ''pip'', ''install'', ''-U'', ''pip''], Some e)]))
   \<and> (downloads (new_events w (snd (update_pip s python_exe penv_dir w))) \<noteq> []
        \<or> (\<exists>r. ([python_exe, get_pip_path penv_dir], r)
                 \<in> set (runs (new_events w (snd (update_pip s python_exe penv_dir w)))))
      \<longrightarrow> can_write s (os_path_join penv_dir ''pip.conf'') (files w)
          \<and> fst (run s [python_exe, ''-m'', ''pip'', ''install'', ''-U'', ''pip'']
                 (AList.update (os_path_join penv_dir ''pip.conf'') pip_conf (files w)))
              = Some CalledProcessError)"
  by (auto simp: update_pip_unfold Let_def new_events_def split: if_splits)

text \<open>
  On a host where no process can be started (\<open>OSError\<close>), the primary command is the
  only call and the answer is \<open>False\<close>.
\<close>

theorem pip_fallback_only_on_process_exit_error_witness:
  "fst (update_pip ((demo_sys (\<lambda>c. True) True False)\<lparr>run := (\<lambda>c fs. (Some OSError, fs))\<rparr>)
          ''/penv/bin/python'' ''/penv'' demo_world) = Inr False
   \<and> downloads (new_events demo_world
        (snd (update_pip ((demo_sys (\<lambda>c. True) True False)\<lparr>run := (\<lambda>c fs. (Some OSError, fs))\<rparr>)
          ''/penv/bin/python'' ''/penv'' demo_world))) = []
   \<and> runs (new_events demo_world
        (snd (update_pip ((demo_sys (\<lambda>c. True) True False)\<lparr>run := (\<lambda>c fs. (Some OSError, fs))\<rparr>)
          ''/penv/bin/python'' ''/penv'' demo_world)))
       = [([''/penv/bin/python'', ''-m'', ''pip'', ''install'', ''-U'', ''pip''], Some OSError)]"
  using pip_fallback_only_on_process_exit_error
    [of "(demo_sys (\<lambda>c. True) True False)\<lparr>run := (\<lambda>c fs. (Some OSError, fs))\<rparr>"
        "''/penv''" demo_world "''/penv/bin/python''"]
  by (simp add: demo_sys_def)

subsection \<open>The state file\<close>

lemma map_of_update_same: "map_of (AList.update k v al) k = Some v"
  by (simp add: update_conv')

lemma subprocess_check_output_eq:
  "subprocess_check_output s c w =
     (fst (check_output s c (files w)),
      \<lparr>files = snd (check_output s c (files w)),
       trace = trace w @ [CheckOutput c (fst (check_output s c (files w)))]\<rparr>)"
  by (simp add: subprocess_check_output_def split: prod.splits)

lemma save_state_unfold:
  "save_state s state penv_dir w =
     (if can_write s (os_path_join (py_or penv_dir (get_penv_dir s None)) ''state.json'') (files w)
      then (Inr (os_path_join (py_or penv_dir (get_penv_dir s None)) ''state.json''),
            w\<lparr>files := AList.update
                 (os_path_join (py_or penv_dir (get_penv_dir s None)) ''state.json'')
                 (json_dumps s state) (files w)\<rparr>)
      else (Inl OSError, w))"
  by (simp add: save_state_def open_write_def Let_def)

text \<open>
  Claim C6. When \<open>save_state\<close> returns, it has written the serialised record to
  \<open>state.json\<close> under the target, replacing whatever the file held, and returns that
  path; \<open>load_state\<close> on the same target then reads the same file and returns the
  record that was saved, all fields equal. \<open>json.dump\<close> and \<open>json.load\<close> are the
  library's: the record is one that the library reads back as it was written.
\<close>

theorem save_then_load:
  assumes "fst (save_state s state penv_dir w) = Inr p"
    and "json_loads s (json_dumps s state) = Inr state"
  shows "load_state s penv_dir (snd (save_state s state penv_dir w)) = Inr state
       \<and> p = os_path_join (py_or penv_dir (get_penv_dir s None)) ''state.json''
       \<and> map_of (files (snd (save_state s state penv_dir w))) p = Some (json_dumps s state)"
  using assms
  by (auto simp: save_state_unfold load_state_def os_path_isfile_def Let_def
        map_of_update_same split: if_splits)

text \<open>
  On the example host, saving over an older \<open>state.json\<close> and loading gives the record
  back.
\<close>

theorem save_then_load_witness:
  "fst (save_state (demo_sys (\<lambda>c. True) True False) demo_state (Some ''/penv'')
          \<lparr>files = [(''/penv/state.json'', ''old'')], trace = []\<rparr>) = Inr ''/penv/state.json''
   \<and> json_loads (demo_sys (\<lambda>c. True) True False)
         (json_dumps (demo_sys (\<lambda>c. True) True False) demo_state) = Inr demo_state
   \<and> load_state (demo_sys (\<lambda>c. True) True False) (Some ''/penv'')
         (snd (save_state (demo_sys (\<lambda>c. True) True False) demo_state (Some ''/penv'')
            \<lparr>files = [(''/penv/state.json'', ''old'')], trace = []\<rparr>)) = Inr demo_state"
proof -
  let ?s = "demo_sys (\<lambda>c. True) True False"
  let ?w = "\<lparr>files = [(''/penv/state.json'', ''old'')], trace = []\<rparr>"
  have h1: "fst (save_state ?s demo_state (Some ''/penv'') ?w) = Inr ''/penv/state.json''"
    by (simp add: save_state_unfold demo_sys_def py_or_def truthy_def os_path_join_def)
  have h2: "json_loads ?s (json_dumps ?s demo_state) = Inr demo_state"
    by (simp add: demo_sys_def)
  from save_then_load [OF h1 h2] h1 h2 show ?thesis
    by blast
qed

text \<open>
  Claim C7, as the code has it. Without a file \<open>state.json\<close> under the target,
  \<open>load_state\<close> fails with the installer's exception carrying the not-found message,
  which is not the exception of a failed build. With the file, it returns what
  \<open>json.load\<close> makes of the content: the stored record when the file holds one, and
  the exception of \<open>json.load\<close> when the content cannot be deserialised.
\<close>

theorem load_state_missing_or_stored:
  "(map_of (files w) (os_path_join (py_or penv_dir (get_penv_dir s None)) ''state.json'') = None
      \<longrightarrow> load_state s penv_dir w =
          Inl (PIOInstallerException
            (''Could not found state.json file in `'' @
             os_path_join (py_or penv_dir (get_penv_dir s None)) ''state.json'' @ ''`''))
        \<and> load_state s penv_dir w \<noteq> Inl build_failure)
   \<and> (\<forall>c. map_of (files w) (os_path_join (py_or penv_dir (get_penv_dir s None)) ''state.json'')
            = Some c
        \<longrightarrow> load_state s penv_dir w = json_loads s c)
   \<and> (\<forall>state.
        map_of (files w) (os_path_join (py_or penv_dir (get_penv_dir s None)) ''state.json'')
            = Some (json_dumps s state)
        \<and> json_loads s (json_dumps s state) = Inr state
        \<longrightarrow> load_state s penv_dir w = Inr state)"
  by (auto simp: load_state_def os_path_isfile_def Let_def build_failure_def)

text \<open>
  On the example host: no state file at first, and the stored record once it is there.
\<close>

theorem load_state_missing_or_stored_witness:
  "load_state (demo_sys (\<lambda>c. True) True False) (Some ''/penv'') demo_world
     = Inl (PIOInstallerException ''Could not found state.json file in `/penv/state.json`'')
   \<and> load_state (demo_sys (\<lambda>c. True) True False) (Some ''/penv'')
       \<lparr>files = [(''/penv/state.json'', show_json demo_state)], trace = []\<rparr>
     = Inr demo_state"
proof -
  let ?s = "demo_sys (\<lambda>c. True) True False"
  let ?w = "\<lparr>files = [(''/penv/state.json'', show_json demo_state)], trace = []\<rparr>"
  have sp: "os_path_join (py_or (Some ''/penv'') (get_penv_dir ?s None)) ''state.json''
      = ''/penv/state.json''"
    by (simp add: py_or_def truthy_def os_path_join_def)
  have a: "map_of (files demo_world) ''/penv/state.json'' = None"
    by (simp add: demo_world_def)
  have b: "map_of (files ?w) ''/penv/state.json'' = Some (json_dumps ?s demo_state)"
    "json_loads ?s (json_dumps ?s demo_state) = Inr demo_state"
    by (simp_all add: demo_sys_def)
  from load_state_missing_or_stored [of demo_world "Some ''/penv''" ?s] a
  have "load_state ?s (Some ''/penv'') demo_world
     = Inl (PIOInstallerException ''Could not found state.json file in `/penv/state.json`'')"
    unfolding sp by simp
  moreover from load_state_missing_or_stored [of ?w "Some ''/penv''" ?s] b
  have "load_state ?s (Some ''/penv'') ?w = Inr demo_state"
    unfolding sp by blast
  ultimately show ?thesis by blast
qed

text \<open>
  Claim C7 as it is written says that with the state file present the load returns the
  stored record without failing. On the example host a file \<open>state.json\<close> that holds
  \<open>old\<close> is a regular file, and \<open>load_state\<close> fails with the exception of
  \<open>json.load\<close>.
\<close>

theorem load_state_malformed_counterexample:
  "os_path_isfile ''/penv/state.json'' \<lparr>files = [(''/penv/state.json'', ''old'')], trace = []\<rparr>
   \<and> load_state (demo_sys (\<lambda>c. True) True False) (Some ''/penv'')
         \<lparr>files = [(''/penv/state.json'', ''old'')], trace = []\<rparr> = Inl ValueError"
  by (simp add: load_state_def os_path_isfile_def Let_def demo_sys_def demo_state_def
        py_or_def truthy_def os_path_join_def)

text \<open>
  Claim C8, as the code has it. When \<open>init_state\<close> returns, the interpreter of the
  environment has been run with the version-printing code, its output decoded and
  stripped, and the file \<open>state.json\<close> under the target holds the serialised record with
  the keys \<open>created_on\<close> (the current time rounded to seconds), \<open>python\<close> (with
  \<open>path\<close> and \<open>version\<close>), \<open>installer_version\<close> and \<open>platform\<close> (with
  \<open>platform\<close> and \<open>release\<close>), in this order. The path of the file is returned.
\<close>

theorem init_state_persists:
  assumes "fst (init_state s python_exe penv_dir w) = Inr p"
  shows "\<exists>out text.
           fst (check_output s [python_exe, ''-c'', version_code] (files w)) = Inr out
         \<and> decode s out = Inr text
         \<and> p = os_path_join (py_or (Some penv_dir) (get_penv_dir s None)) ''state.json''
         \<and> map_of (files (snd (init_state s python_exe penv_dir w))) p =
             Some (json_dumps s (JObj
               [(''created_on'', JInt (py_round (time_time s))),
                (''python'', JObj
                   [(''path'', JStr python_exe),
                    (''version'', JStr (strip s text))]),
                (''installer_version'', JStr (installer_version s)),
                (''platform'', JObj
                   [(''platform'', JStr (platform_platform s)),
                    (''release'', JStr (platform_release s))])]))"
  using assms
  by (auto simp: init_state_def subprocess_check_output_eq save_state_unfold Let_def
        map_of_update_same split: sum.splits if_splits)

text \<open>
  On the example host \<open>init_state\<close> returns and \<open>state.json\<close> holds the example
  record.
\<close>

theorem init_state_persists_witness:
  "fst (init_state (demo_sys (\<lambda>c. True) True False) ''/penv/bin/python'' ''/penv'' demo_world)
     = Inr ''/penv/state.json''
   \<and> map_of (files (snd (init_state (demo_sys (\<lambda>c. True) True False)
        ''/penv/bin/python'' ''/penv'' demo_world))) ''/penv/state.json''
     = Some (show_json demo_state)"
proof -
  let ?s = "demo_sys (\<lambda>c. True) True False"
  have h: "fst (init_state ?s ''/penv/bin/python'' ''/penv'' demo_world) = Inr ''/penv/state.json''"
    by (simp add: init_state_def subprocess_check_output_eq save_state_unfold Let_def
          demo_sys_def py_or_def truthy_def os_path_join_def)
  have sp: "os_path_join (py_or (Some ''/penv'') (get_penv_dir ?s None)) ''state.json''
      = ''/penv/state.json''"
    by (simp add: py_or_def truthy_def os_path_join_def)
  from init_state_persists [OF h] obtain out decoded where
    o: "fst (check_output ?s [''/penv/bin/python'', ''-c'', version_code] (files demo_world)) = Inr out"
    and t: "decode ?s out = Inr decoded"
    and m: "map_of (files (snd (init_state ?s ''/penv/bin/python'' ''/penv'' demo_world)))
              ''/penv/state.json'' =
             Some (json_dumps ?s (JObj
               [(''created_on'', JInt (py_round (time_time ?s))),
                (''python'', JObj
                   [(''path'', JStr ''/penv/bin/python''),
                    (''version'', JStr (strip ?s decoded))]),
                (''installer_version'', JStr (installer_version ?s)),
                (''platform'', JObj
                   [(''platform'', JStr (platform_platform ?s)),
                    (''release'', JStr (platform_release ?s))])]))"
    by blast
  from o t have "decoded = ''3.9.1'' @ [CHR 0x0A]"
    by (simp add: demo_sys_def)
  with m have "map_of (files (snd (init_state ?s ''/penv/bin/python'' ''/penv'' demo_world)))
      ''/penv/state.json'' = Some (show_json demo_state)"
    by (simp add: demo_sys_def demo_state_def py_round_def)
  with h show ?thesis by blast
qed

text \<open>
  Claim C8 as it is written names the second key \<open>runtime\<close>. On the example host the
  file written by \<open>init_state\<close> has the key \<open>python\<close>, and it is not the
  serialisation of the record with \<open>runtime\<close> in its place.
\<close>

theorem init_state_runtime_key_counterexample:
  \<open>map_of (files (snd (init_state (demo_sys (\<lambda>c. True) True False)
       ''/penv/bin/python'' ''/penv'' demo_world))) ''/penv/state.json''
     = Some (''{"created_on": 1700000001, '' @
             ''"python": {"path": "/penv/bin/python", "version": "3.9.1"}, '' @
             ''"installer_version": "1.2.2", '' @
             ''"platform": {"platform": "Linux-6.1-x86_64", "release": "6.1"}}'')
   \<and> map_of (files (snd (init_state (demo_sys (\<lambda>c. True) True False)
       ''/penv/bin/python'' ''/penv'' demo_world))) ''/penv/state.json''
     \<noteq> Some (json_dumps (demo_sys (\<lambda>c. True) True False) (JObj
         [(''created_on'', JInt 1700000001),
          (''runtime'', JObj
             [(''path'', JStr ''/penv/bin/python''), (''version'', JStr ''3.9.1'')]),
          (''installer_version'', JStr ''1.2.2''),
          (''platform'', JObj
             [(''platform'', JStr ''Linux-6.1-x86_64''), (''release'', JStr ''6.1'')])]))\<close>
  by (simp add: init_state_def subprocess_check_output_eq save_state_unfold Let_def
        demo_sys_def demo_world_def py_or_def truthy_def os_path_join_def py_round_def)

end
